theory Spec2Isabelle
  imports Main "HOL-Library.Sublist"
begin

section \<open>Python values the program relies on\<close>

text \<open>
  The program is a Python script (\<open>setupRTMP6.py\<close>). Strings are modelled as ASCII
  \<open>string\<close>s, Python's unbounded integers as \<open>int\<close>. The exceptions that the
  modelled functions raise or catch are the constructors of \<open>py_exn\<close>.
\<close>

datatype py_exn = ValueError | AssertionError | KeyError | EOFError | KeyboardInterrupt

text \<open>How a call ends: it returns a value, leaves the process through \<open>sys.exit\<close>
  with a status, or lets an exception escape.\<close>

datatype 'a outcome = Returned 'a | Exited int | Raised py_exn

subsection \<open>\<open>int(s)\<close> on a string\<close>

text \<open>
  \<open>int(port_str)\<close>: surrounding whitespace is stripped, one sign is allowed, and the
  rest must be decimal digits, with single underscores allowed between digits. Anything
  else raises \<open>ValueError\<close>, which is the value \<open>None\<close> here. The limit that
  recent interpreters put on the number of digits is left out.
\<close>

definition is_py_space :: "char \<Rightarrow> bool" where
  "is_py_space c = (let n = (of_char c :: nat) in (9 \<le> n \<and> n \<le> 13) \<or> (28 \<le> n \<and> n \<le> 32))"

definition is_digit :: "char \<Rightarrow> bool" where
  "is_digit c = (let n = (of_char c :: nat) in 48 \<le> n \<and> n \<le> 57)"

definition digit_val :: "char \<Rightarrow> int" where
  "digit_val c = int (of_char c) - 48"

definition strip :: "string \<Rightarrow> string" where
  "strip s = rev (dropWhile is_py_space (rev (dropWhile is_py_space s)))"

fun digits_value :: "int \<Rightarrow> string \<Rightarrow> int option" where
  "digits_value acc [] = Some acc"
| "digits_value acc (c # cs) =
     (if is_digit c then digits_value (10 * acc + digit_val c) cs
      else if c = CHR ''_'' then
        (case cs of
           [] \<Rightarrow> None
         | d # _ \<Rightarrow> if is_digit d then digits_value acc cs else None)
      else None)"

definition py_int :: "string \<Rightarrow> int option" where
  "py_int s =
     (let t = strip s;
          neg = (case t of [] \<Rightarrow> False | c # _ \<Rightarrow> c = CHR ''-'');
          body = (case t of [] \<Rightarrow> [] | c # r \<Rightarrow> if c = CHR ''-'' \<or> c = CHR ''+'' then r else t)
      in case body of
           [] \<Rightarrow> None
         | c # _ \<Rightarrow>
             if is_digit c
             then map_option (\<lambda>v. if neg then - v else v) (digits_value 0 body)
             else None)"

section \<open>The operating system as the program sees it\<close>

text \<open>
  The Process Probe reads the socket table and the process table through \<open>psutil\<close>.
  A connection carries the local port, the state and the owning pid (an integer, as the
  annotation of \<open>find_process_using_port\<close> has it); a process carries what \<open>psutil\<close>
  reports about it. \<open>pname = None\<close> stands for a process whose
  attributes cannot be read (\<open>AccessDenied\<close>); a pid with no entry in the process table
  stands for \<open>NoSuchProcess\<close>.
\<close>

datatype conn_status = CONN_LISTEN | CONN_ESTABLISHED | CONN_TIME_WAIT | CONN_NONE

record conn =
  laddr_port :: int
  cstatus :: conn_status
  cpid :: int

text \<open>What happens when \<open>kill()\<close> is sent to a process and its exit is awaited for one
  second: it exits in time, it is still alive when the wait times out, the signal is
  refused (\<open>AccessDenied\<close>), or it has vanished just before (\<open>NoSuchProcess\<close>).\<close>

datatype kill_effect = Exits | Lingers | Refused | Vanished

record proc =
  pname :: "string option"
  exe_file :: "string option"
  cmdline :: "string list option"
  on_kill :: kill_effect

datatype psutil_error = NoSuchProcess | AccessDenied

text \<open>The failures of socket enumeration that \<open>find_process_using_port\<close> names in its
  handler.\<close>

datatype enum_failure = Psutil_Error | OS_Error | Attribute_Error

subsection \<open>ASCII helpers\<close>

text \<open>\<open>sub in s\<close> on strings.\<close>

fun contains :: "string \<Rightarrow> string \<Rightarrow> bool" where
  "contains sub [] = (sub = [])"
| "contains sub (c # cs) = (prefix sub (c # cs) \<or> contains sub cs)"

text \<open>\<open>str.lower()\<close> on ASCII letters.\<close>

definition lower_char :: "char \<Rightarrow> char" where
  "lower_char c =
     (let n = (of_char c :: nat) in if 65 \<le> n \<and> n \<le> 90 then char_of (n + 32) else c)"

definition lower :: "string \<Rightarrow> string" where
  "lower s = map lower_char s"

text \<open>\<open>str(n)\<close> for a natural number.\<close>

fun str_nat :: "nat \<Rightarrow> string" where
  "str_nat n =
     (if n < 10 then [char_of (48 + n)]
      else str_nat (n div 10) @ [char_of (48 + n mod 10)])"

declare str_nat.simps [simp del]

section \<open>Device records\<close>

text \<open>
  One line of \<open>adb devices -l\<close> that matched the pattern gives the groups
  \<open>(id, status token, optional detail)\<close>; the status token is one of the three
  alternatives of the pattern. The record holds the keys of the dictionary that
  \<open>parse_device_line\<close> builds.
\<close>

datatype status_token = Device | Offline | Unauthorized

datatype connection_kind = Wi_Fi | Emulator | USB

datatype icon = Antenna_bars | Laptop | Plug

record device =
  dev_id :: string
  dev_status :: status_token
  details :: string
  connection :: connection_kind
  dev_icon :: icon
  dev_name :: string

text \<open>What \<open>subprocess.run\<close> on an \<open>adb shell getprop\<close> gives: a return code and
  the standard output, a timeout, or another exception.\<close>

datatype run_result = Completed int string | Run_timeout | Run_error

subsection \<open>Console messages, prompts and the trace of effects\<close>

text \<open>The messages handed to \<open>exit_with_error\<close>.\<close>

datatype fatal =
    Port_conflict_unresolved int
  | No_device_selected

text \<open>One constructor for each \<open>print\<close> of the modelled functions, with the values it
  interpolates; \<open>severity\<close> is the style tag the source gives the message
  (\<open>Plain\<close> where it gives none).\<close>

datatype msg =
    Invalid_port string
  | Checking_port int
  | Port_in_use int string int
  | Port_freed int
  | Skipping_conflict
  | Cannot_kill_pid0
  | Killing string int
  | Proc_linger string int
  | Kill_signal_sent string int
  | Proc_gone string int
  | Kill_error string int
  | Error_exit fatal
  | No_devices_found
  | Device_table "device list"
  | Selection_error bool bool
  | Auto_selecting device
  | Multiple_devices
  | Choice_line nat device
  | Selected device
  | Cancelled
  | Mona_already_running
  | Mona_path_invalid
  | Mona_port_conflict string "int option"
  | Starting_mona string
  | Mona_start_issued
  | Mona_unverified_port_free
  | Mona_unverified_port_taken string
  | Mona_unverified
  | Mona_start_failed
  | Missing_libraries "string list"
  | Missing_library_unknown

datatype level = Plain | Info | Warning | Danger | Error | Success

fun severity :: "msg \<Rightarrow> level" where
  "severity (Invalid_port _) = Danger"
| "severity (Checking_port _) = Info"
| "severity (Port_in_use _ _ _) = Warning"
| "severity (Port_freed _) = Success"
| "severity Skipping_conflict = Warning"
| "severity Cannot_kill_pid0 = Error"
| "severity (Killing _ _) = Info"
| "severity (Proc_linger _ _) = Warning"
| "severity (Kill_signal_sent _ _) = Success"
| "severity (Proc_gone _ _) = Warning"
| "severity (Kill_error _ _) = Danger"
| "severity (Error_exit _) = Danger"
| "severity No_devices_found = Warning"
| "severity (Device_table _) = Plain"
| "severity (Selection_error _ _) = Danger"
| "severity (Auto_selecting _) = Success"
| "severity Multiple_devices = Info"
| "severity (Choice_line _ _) = Plain"
| "severity (Selected _) = Success"
| "severity Cancelled = Warning"
| "severity Mona_already_running = Success"
| "severity Mona_path_invalid = Danger"
| "severity (Mona_port_conflict _ _) = Danger"
| "severity (Starting_mona _) = Info"
| "severity Mona_start_issued = Success"
| "severity Mona_unverified_port_free = Warning"
| "severity (Mona_unverified_port_taken _) = Warning"
| "severity Mona_unverified = Warning"
| "severity Mona_start_failed = Danger"
| "severity (Missing_libraries _) = Plain"
| "severity Missing_library_unknown = Plain"

datatype question = Kill_question string int | Skip_question

datatype event =
    Out msg
  | Sys_net_connections
  | Sys_process_iter
  | Sys_kill int
  | Sys_wait int
  | Sys_sleep nat
  | Sys_popen string
  | Sys_adb_getprop string string
  | Ask_confirm question
  | Ask_prompt
  | Await_enter

text \<open>What the operator does at the selection prompt: a line is typed, or the prompt is
  interrupted.\<close>

datatype prompt_input = Typed string | Interrupt

text \<open>
  The state threaded through every call: the platform name, the socket and process
  tables, the files that exist, the replies of the device bridge to property queries,
  the operator's answers to the yes/no confirmations (the truth value the source
  branches on, one per confirmation asked), the operator's inputs at the selection
  prompt (standard input ends where the list ends), and the trace of everything
  printed, asked or requested from the system so far.
\<close>

record world =
  platform_system :: string
  net_connections :: "enum_failure + conn list"
  procs :: "(int \<times> proc) list"
  files :: "string list"
  adb_getprop :: "string \<Rightarrow> string \<Rightarrow> run_result"
  confirm_answers :: "nat \<Rightarrow> bool"
  confirms_asked :: nat
  prompt_inputs :: "prompt_input list"
  trace :: "event list"

type_synonym 'a prog = "world \<Rightarrow> 'a \<times> world"

definition emit :: "event \<Rightarrow> world \<Rightarrow> world" where
  "emit e w = w\<lparr>trace := trace w @ [e]\<rparr>"

definition console_print :: "msg \<Rightarrow> world \<Rightarrow> world" where
  "console_print m w = emit (Out m) w"

definition confirm_ask :: "question \<Rightarrow> bool prog" where
  "confirm_ask q w =
     (confirm_answers w (confirms_asked w),
      emit (Ask_confirm q) (w\<lparr>confirms_asked := Suc (confirms_asked w)\<rparr>))"

text \<open>A process that exits takes its sockets with it.\<close>

definition remove_process :: "int \<Rightarrow> world \<Rightarrow> world" where
  "remove_process p w =
     w\<lparr>procs := filter (\<lambda>(q, _). q \<noteq> p) (procs w),
       net_connections := map_sum id (filter (\<lambda>c. cpid c \<noteq> p)) (net_connections w)\<rparr>"

section \<open>Process Probe\<close>

text \<open>\<open>psutil.Process(pid).name()\<close>.\<close>

definition process_name :: "(int \<times> proc) list \<Rightarrow> int \<Rightarrow> psutil_error + string" where
  "process_name ps p =
     (case map_of ps p of
        None \<Rightarrow> Inl NoSuchProcess
      | Some pr \<Rightarrow> (case pname pr of None \<Rightarrow> Inl AccessDenied | Some n \<Rightarrow> Inr n))"

text \<open>The loop of \<open>find_process_using_port\<close> over the enumerated connections: the first
  listening entry on the port whose process can be named is returned; an entry whose
  process raises \<open>NoSuchProcess\<close> or \<open>AccessDenied\<close> is passed over.\<close>

fun scan_connections :: "int \<Rightarrow> (int \<times> proc) list \<Rightarrow> conn list \<Rightarrow> (int \<times> string) option" where
  "scan_connections port ps [] = None"
| "scan_connections port ps (c # cs) =
     (if laddr_port c = port \<and> cstatus c = CONN_LISTEN then
        (case process_name ps (cpid c) of
           Inr n \<Rightarrow> Some (cpid c, n)
         | Inl NoSuchProcess \<Rightarrow> scan_connections port ps cs
         | Inl AccessDenied \<Rightarrow> scan_connections port ps cs)
      else scan_connections port ps cs)"

definition find_process_using_port :: "int \<Rightarrow> (int \<times> string) option prog" where
  "find_process_using_port port w =
     (if \<not> (0 < port \<and> port \<le> 65535) then (None, w)
      else
        let w1 = emit Sys_net_connections w in
        (case net_connections w of
           Inl Psutil_Error \<Rightarrow> (None, w1)
         | Inl OS_Error \<Rightarrow> (None, w1)
         | Inl Attribute_Error \<Rightarrow> (None, w1)
         | Inr cs \<Rightarrow> (scan_connections port (procs w) cs, w1)))"

definition kill_process_by_pid :: "int \<Rightarrow> string \<Rightarrow> bool prog" where
  "kill_process_by_pid p name w =
     (if p = 0 \<and> platform_system w = ''Windows'' then
        (False, console_print Cannot_kill_pid0 w)
      else
        (case map_of (procs w) p of
           None \<Rightarrow> (True, console_print (Proc_gone name p) w)
         | Some pr \<Rightarrow>
             let w1 = emit (Sys_kill p) (console_print (Killing name p) w) in
             (case on_kill pr of
                Vanished \<Rightarrow> (True, console_print (Proc_gone name p) (remove_process p w1))
              | Refused \<Rightarrow> (False, console_print (Kill_error name p) w1)
              | Exits \<Rightarrow>
                  (True, console_print (Kill_signal_sent name p)
                           (emit (Sys_wait p) (remove_process p w1)))
              | Lingers \<Rightarrow>
                  (True, console_print (Kill_signal_sent name p)
                           (console_print (Proc_linger name p) (emit (Sys_wait p) w1))))))"

section \<open>Port Conflict Resolver\<close>

record config =
  adb_path :: "string option"
  monaserver_path :: "string option"
  rtmp_port :: string
  auto_select_single_device :: bool
  fetch_device_models :: bool
  force_kill_port_process :: bool
  devices :: "device list"

text \<open>\<open>exit_with_error\<close>: the message, the wait for Enter, then \<open>sys.exit(1)\<close>.\<close>

definition exit_with_error :: "fatal \<Rightarrow> world \<Rightarrow> 'a outcome \<times> world" where
  "exit_with_error message w = (Exited 1, emit Await_enter (console_print (Error_exit message) w))"

text \<open>The first two statements of \<open>handle_port_conflict\<close>: \<open>int(port_str)\<close>, then the
  assertion on the range.\<close>

definition parse_port :: "string \<Rightarrow> py_exn + int" where
  "parse_port port_str =
     (case py_int port_str of
        None \<Rightarrow> Inl ValueError
      | Some port \<Rightarrow> if 0 < port \<and> port \<le> 65535 then Inr port else Inl AssertionError)"

text \<open>The body of \<open>handle_port_conflict\<close> from the "Checking port" message on, once
  \<open>port\<close> is bound: the probe, then the policy on an occupant.\<close>

definition check_port :: "int \<Rightarrow> config \<Rightarrow> world \<Rightarrow> (bool \<times> int option) outcome \<times> world" where
  "check_port port p_config w =
     (let (info, w2) = find_process_using_port port (console_print (Checking_port port) w) in
      case info of
        None \<Rightarrow> (Returned (True, None), w2)
      | Some (p, name) \<Rightarrow>
          let w3 = console_print (Port_in_use port name p) w2;
              (kill, w4) = (if force_kill_port_process p_config then (True, w3)
                            else confirm_ask (Kill_question name p) w3)
          in
            if kill then
              (let (killed, w5) = kill_process_by_pid p name w4 in
               if killed
               then (Returned (True, None),
                     emit (Sys_sleep 500) (console_print (Port_freed port) w5))
               else (Returned (False, Some p), w5))
            else
              (let (skip, w5) = confirm_ask Skip_question w4 in
               if skip then (Returned (False, Some p), console_print Skipping_conflict w5)
               else exit_with_error (Port_conflict_unresolved port) w5))"

text \<open>The \<open>try\<close> block around the parse: \<open>ValueError\<close> and \<open>AssertionError\<close> are
  caught, the invalid value is printed and 1935 is used; any other exception would
  escape.\<close>

definition handle_port_conflict :: "string \<Rightarrow> config \<Rightarrow> world \<Rightarrow> (bool \<times> int option) outcome \<times> world" where
  "handle_port_conflict port_str p_config w =
     (case parse_port port_str of
        Inr port \<Rightarrow> check_port port p_config w
      | Inl e \<Rightarrow>
          if e = ValueError \<or> e = AssertionError
          then check_port 1935 p_config (console_print (Invalid_port port_str) w)
          else (Raised e, w))"

text \<open>The value that \<open>port\<close> holds in \<open>handle_port_conflict\<close> when the check
  starts.\<close>

definition checked_port :: "string \<Rightarrow> int" where
  "checked_port port_str = (case parse_port port_str of Inr port \<Rightarrow> port | Inl _ \<Rightarrow> 1935)"

section \<open>Device Bridge Client\<close>

text \<open>\<open>get_device_model\<close>: the product model, else the manufacturer, each asked of the
  bridge with a two-second timeout.\<close>

definition getprop_text :: "run_result \<Rightarrow> string" where
  "getprop_text r = (case r of Completed rc out \<Rightarrow> if rc = 0 then strip out else [] | _ \<Rightarrow> [])"

definition get_device_model :: "config \<Rightarrow> string \<Rightarrow> string prog" where
  "get_device_model model_config device_id w =
     (if \<not> fetch_device_models model_config \<or> adb_path model_config = None then (''Unknown'', w)
      else
        let w1 = emit (Sys_adb_getprop device_id ''ro.product.model'') w in
        (case adb_getprop w device_id ''ro.product.model'' of
           Run_timeout \<Rightarrow> (''Unknown (Timeout)'', w1)
         | Run_error \<Rightarrow> (''Unknown (Error)'', w1)
         | Completed rc out \<Rightarrow>
             if getprop_text (Completed rc out) \<noteq> [] then (getprop_text (Completed rc out), w1)
             else
               let w2 = emit (Sys_adb_getprop device_id ''ro.product.manufacturer'') w1 in
               (case adb_getprop w device_id ''ro.product.manufacturer'' of
                  Run_timeout \<Rightarrow> (''Unknown (Timeout)'', w2)
                | Run_error \<Rightarrow> (''Unknown (Error)'', w2)
                | Completed rc2 out2 \<Rightarrow>
                    if getprop_text (Completed rc2 out2) \<noteq> []
                    then (getprop_text (Completed rc2 out2) @ '' (Model N/A)'', w2)
                    else (''Unknown'', w2))))"

text \<open>
  The conditional of \<open>parse_device_line\<close> that binds \<open>conn, icon\<close>. \<open>did.split(":")[0]\<close>
  is the text before the first colon.
\<close>

definition connection_of :: "string \<Rightarrow> connection_kind \<times> icon" where
  "connection_of did =
     (if contains ''_adb-tls-connect'' did then (Wi_Fi, Antenna_bars)
      else if List.member did CHR '':'' \<and>
              list_all (\<lambda>c. List.member ''0123456789.'' c) (takeWhile (\<lambda>c. c \<noteq> CHR '':'') did)
           then (Wi_Fi, Antenna_bars)
      else if contains ''emulator'' did then (Emulator, Laptop)
      else (USB, Plug))"

fun capitalized :: "status_token \<Rightarrow> string" where
  "capitalized Device = ''Device''"
| "capitalized Offline = ''Offline''"
| "capitalized Unauthorized = ''Unauthorized''"

definition parse_device_line :: "config \<Rightarrow> string \<times> status_token \<times> string option \<Rightarrow> device prog" where
  "parse_device_line p_config m w =
     (case m of (did, stat, det) \<Rightarrow>
        let (conn, ic) = connection_of did;
            (name, w1) =
              (if stat = Device then
                 (if fetch_device_models p_config then get_device_model p_config did w
                  else (''Unknown'', w))
               else (''('' @ capitalized stat @ '')'', w))
        in (\<lparr>dev_id = did, dev_status = stat,
             details = (case det of None \<Rightarrow> [] | Some d \<Rightarrow> d),
             connection = conn, dev_icon = ic, dev_name = name\<rparr>, w1))"

section \<open>Device Selector\<close>

text \<open>
  \<open>Prompt.ask\<close> with a list of choices: the prompt is shown again until a line that,
  stripped, is one of the choices has been typed. An interrupt raises
  \<open>KeyboardInterrupt\<close>; the end of the input raises \<open>EOFError\<close>. The number is how
  often the prompt was shown.
\<close>

fun read_choice :: "string list \<Rightarrow> prompt_input list \<Rightarrow> (py_exn + string) \<times> prompt_input list \<times> nat" where
  "read_choice choices [] = (Inl EOFError, [], 1)"
| "read_choice choices (Interrupt # rest) = (Inl KeyboardInterrupt, rest, 1)"
| "read_choice choices (Typed s # rest) =
     (if List.member choices (strip s) then (Inr (strip s), rest, 1)
      else (case read_choice choices rest of (r, rest', n) \<Rightarrow> (r, rest', Suc n)))"

definition prompt_ask :: "string list \<Rightarrow> (py_exn + string) prog" where
  "prompt_ask choices w =
     (case read_choice choices (prompt_inputs w) of
        (r, rest, n) \<Rightarrow> (r, w\<lparr>prompt_inputs := rest, trace := trace w @ replicate n Ask_prompt\<rparr>))"

definition print_choice_lines :: "device list \<Rightarrow> world \<Rightarrow> world" where
  "print_choice_lines sel w =
     fold (\<lambda>(i, d). console_print (Choice_line (i + 1) d)) (zip [0..<length sel] sel) w"

definition select_device_from_list :: "config \<Rightarrow> world \<Rightarrow> device option outcome \<times> world" where
  "select_device_from_list current_config w =
     (let devs = devices current_config;
          sel = filter (\<lambda>d. dev_status d = Device) devs
      in
        if devs = [] then (Returned None, console_print No_devices_found w)
        else
          let w1 = console_print (Device_table devs) w in
          if sel = [] then
            (Returned None,
             console_print
               (Selection_error (list_ex (\<lambda>d. dev_status d = Unauthorized) devs)
                                (list_ex (\<lambda>d. dev_status d = Offline) devs)) w1)
          else if length sel = 1 \<and> auto_select_single_device current_config then
            (Returned (Some (hd sel)), console_print (Auto_selecting (hd sel)) w1)
          else
            let choices = map (\<lambda>i. str_nat (i + 1)) [0..<length sel];
                cmap = map_of (zip choices sel);
                w2 = print_choice_lines sel (console_print Multiple_devices w1);
                (r, w3) = prompt_ask choices w2
            in
              (case r of
                 Inr s \<Rightarrow>
                   (case cmap s of
                      Some d \<Rightarrow> (Returned (Some d), console_print (Selected d) w3)
                    | None \<Rightarrow> (Raised KeyError, w3))
               | Inl e \<Rightarrow>
                   if e = KeyboardInterrupt then (Exited 0, console_print Cancelled w3)
                   else (Raised e, w3)))"


section \<open>Server start\<close>

text \<open>
  \<open>check_monaserver_process\<close> walks the process list with the attributes \<open>name\<close>,
  \<open>exe\<close> and \<open>cmdline\<close> prefetched; an attribute that cannot be read is \<open>None\<close>.
  \<open>exe_file\<close> is the file name of the executable's path.
\<close>

definition mona_exe :: "world \<Rightarrow> string" where
  "mona_exe w = lower (''MonaServer'' @ (if platform_system w = ''Windows'' then ''.exe'' else []))"

definition is_mona_process :: "string \<Rightarrow> proc \<Rightarrow> bool" where
  "is_mona_process exe pr =
     (let p_name = lower (case pname pr of None \<Rightarrow> [] | Some n \<Rightarrow> n);
          p_exe = lower (case exe_file pr of None \<Rightarrow> [] | Some e \<Rightarrow> e)
      in exe = p_name \<or> exe = p_exe \<or>
         (case cmdline pr of
            None \<Rightarrow> False
          | Some args \<Rightarrow> list_ex (\<lambda>arg. contains (lower ''MonaServer'') (lower arg)) args))"

definition check_monaserver_process :: "bool prog" where
  "check_monaserver_process w =
     (list_ex (\<lambda>(_, pr). is_mona_process (mona_exe w) pr) (procs w), emit Sys_process_iter w)"



section \<open>Start of the script\<close>


section \<open>The specification's wording of the connection kind\<close>

text \<open>
  The specification names "a wireless pairing marker or dotted-quad-with-port prefix",
  then "substring indicating an emulator id", else usb. \<open>spec_connection_kind\<close> follows
  these words, to be compared with \<open>connection_of\<close>: a dotted quad is four non-empty
  groups of decimal digits separated by dots, and the colon that introduces the port
  follows it.
\<close>

fun split_on :: "char \<Rightarrow> string \<Rightarrow> string list" where
  "split_on sep [] = [[]]"
| "split_on sep (c # cs) =
     (if c = sep then [] # split_on sep cs
      else (case split_on sep cs of [] \<Rightarrow> [[c]] | x # xs \<Rightarrow> (c # x) # xs))"

definition spec_dotted_quad_with_port_prefix :: "string \<Rightarrow> bool" where
  "spec_dotted_quad_with_port_prefix did =
     (List.member did CHR '':'' \<and>
      (let groups = split_on CHR ''.'' (takeWhile (\<lambda>c. c \<noteq> CHR '':'') did)
       in length groups = 4 \<and>
          list_all (\<lambda>g. g \<noteq> [] \<and> list_all (\<lambda>c. List.member ''0123456789'' c) g) groups))"

definition spec_connection_kind :: "string \<Rightarrow> connection_kind" where
  "spec_connection_kind did =
     (if contains ''_adb-tls-connect'' did \<or> spec_dotted_quad_with_port_prefix did then Wi_Fi
      else if contains ''emulator'' did then Emulator
      else USB)"

section \<open>Scenarios\<close>

text \<open>Concrete systems and configurations on which the theorems below are exercised:
  port 1935 held by process 500, "OldServer", which reacts to a kill as given.\<close>

definition old_server :: "kill_effect \<Rightarrow> proc" where
  "old_server k =
     \<lparr>pname = Some ''OldServer'', exe_file = Some ''OldServer.exe'',
      cmdline = Some [''OldServer.exe''], on_kill = k\<rparr>"

definition listener :: "int \<Rightarrow> int \<Rightarrow> conn" where
  "listener port p = \<lparr>laddr_port = port, cstatus = CONN_LISTEN, cpid = p\<rparr>"

definition system_with :: "conn list \<Rightarrow> (int \<times> proc) list \<Rightarrow> (nat \<Rightarrow> bool) \<Rightarrow> world" where
  "system_with cs ps answers =
     \<lparr>platform_system = ''Windows'', net_connections = Inr cs, procs = ps,
      files = [''MonaServer.exe''], adb_getprop = (\<lambda>_ _. Run_error),
      confirm_answers = answers, confirms_asked = 0, prompt_inputs = [], trace = []\<rparr>"

definition occupied_world :: "kill_effect \<Rightarrow> (nat \<Rightarrow> bool) \<Rightarrow> world" where
  "occupied_world k answers = system_with [listener 1935 500] [(500, old_server k)] answers"

definition policy :: "bool \<Rightarrow> device list \<Rightarrow> config" where
  "policy force devs =
     \<lparr>adb_path = Some ''adb.exe'', monaserver_path = Some ''MonaServer.exe'',
      rtmp_port = ''1935'', auto_select_single_device = True, fetch_device_models = False,
      force_kill_port_process = force, devices = devs\<rparr>"

text \<open>A device on USB whose model was not fetched.\<close>

definition phone :: "string \<Rightarrow> status_token \<Rightarrow> device" where
  "phone did st =
     \<lparr>dev_id = did, dev_status = st, details = [], connection = USB, dev_icon = Plug,
      dev_name = ''Unknown''\<rparr>"



section \<open>Properties of the Process Probe and the Port Conflict Resolver\<close>

subsection \<open>Auxiliary facts\<close>

lemma py_int_1935: "py_int ''1935'' = Some 1935"
  by (simp add: py_int_def strip_def is_py_space_def is_digit_def digit_val_def)

lemma parse_port_1935: "parse_port ''1935'' = Inr 1935"
  by (simp add: parse_port_def py_int_1935)

lemma parse_port_Inl: "parse_port s = Inl e \<Longrightarrow> e = ValueError \<or> e = AssertionError"
  by (auto simp: parse_port_def split: option.splits if_splits)


lemma emit_fields [simp]:
  "platform_system (emit e w) = platform_system w"
  "net_connections (emit e w) = net_connections w"
  "procs (emit e w) = procs w"
  "files (emit e w) = files w"
  "adb_getprop (emit e w) = adb_getprop w"
  "confirm_answers (emit e w) = confirm_answers w"
  "confirms_asked (emit e w) = confirms_asked w"
  "prompt_inputs (emit e w) = prompt_inputs w"
  "trace (emit e w) = trace w @ [e]"
  by (simp_all add: emit_def)

lemma console_print_fields [simp]:
  "platform_system (console_print m w) = platform_system w"
  "net_connections (console_print m w) = net_connections w"
  "procs (console_print m w) = procs w"
  "files (console_print m w) = files w"
  "adb_getprop (console_print m w) = adb_getprop w"
  "confirm_answers (console_print m w) = confirm_answers w"
  "confirms_asked (console_print m w) = confirms_asked w"
  "prompt_inputs (console_print m w) = prompt_inputs w"
  "trace (console_print m w) = trace w @ [Out m]"
  by (simp_all add: console_print_def)

lemma confirm_ask_fields [simp]:
  "fst (confirm_ask q w) = confirm_answers w (confirms_asked w)"
  "platform_system (snd (confirm_ask q w)) = platform_system w"
  "net_connections (snd (confirm_ask q w)) = net_connections w"
  "procs (snd (confirm_ask q w)) = procs w"
  "confirm_answers (snd (confirm_ask q w)) = confirm_answers w"
  "confirms_asked (snd (confirm_ask q w)) = Suc (confirms_asked w)"
  "trace (snd (confirm_ask q w)) = trace w @ [Ask_confirm q]"
  by (simp_all add: confirm_ask_def)

lemma find_fst_cong:
  "net_connections w1 = net_connections w2 \<Longrightarrow> procs w1 = procs w2 \<Longrightarrow>
   fst (find_process_using_port port w1) = fst (find_process_using_port port w2)"
  by (simp add: find_process_using_port_def Let_def split: sum.splits enum_failure.splits)

lemma find_snd:
  "snd (find_process_using_port port w) =
     (if 0 < port \<and> port \<le> 65535 then emit Sys_net_connections w else w)"
  by (simp add: find_process_using_port_def Let_def split: sum.splits enum_failure.splits)



lemma kill_fst:
  "fst (kill_process_by_pid p name w) =
     (\<not> (p = 0 \<and> platform_system w = ''Windows'') \<and>
      (case map_of (procs w) p of None \<Rightarrow> True | Some pr \<Rightarrow> on_kill pr \<noteq> Refused))"
  by (auto simp: kill_process_by_pid_def Let_def split: option.splits kill_effect.splits)

lemma find_fst_print [simp]:
  "fst (find_process_using_port port (console_print m w)) = fst (find_process_using_port port w)"
  "fst (find_process_using_port port (emit e w)) = fst (find_process_using_port port w)"
  by (rule find_fst_cong; simp)+

lemma find_fields [simp]:
  "platform_system (snd (find_process_using_port port w)) = platform_system w"
  "net_connections (snd (find_process_using_port port w)) = net_connections w"
  "procs (snd (find_process_using_port port w)) = procs w"
  "confirm_answers (snd (find_process_using_port port w)) = confirm_answers w"
  "confirms_asked (snd (find_process_using_port port w)) = confirms_asked w"
  by (simp_all add: find_snd)

lemma find_trace:
  "trace (snd (find_process_using_port port w)) =
     trace w @ (if 0 < port \<and> port \<le> 65535 then [Sys_net_connections] else [])"
  by (simp add: find_snd)

lemma kill_fst_cong:
  "platform_system w1 = platform_system w2 \<Longrightarrow> procs w1 = procs w2 \<Longrightarrow>
   fst (kill_process_by_pid p name w1) = fst (kill_process_by_pid p name w2)"
  by (simp add: kill_fst)

lemma kill_confirms [simp]:
  "confirms_asked (snd (kill_process_by_pid p name w)) = confirms_asked w"
  "confirm_answers (snd (kill_process_by_pid p name w)) = confirm_answers w"
  by (simp_all add: kill_process_by_pid_def remove_process_def Let_def split: option.splits kill_effect.splits)

lemma kill_trace:
  "\<exists>added. trace (snd (kill_process_by_pid p name w)) = trace w @ added \<and>
           Await_enter \<notin> set added \<and> (\<forall>q. Ask_confirm q \<notin> set added)"
  by (auto simp: kill_process_by_pid_def remove_process_def Let_def split: option.splits kill_effect.splits)





lemma hpc_check_port:
  "handle_port_conflict s cfg w =
     check_port (checked_port s) cfg
       (case parse_port s of Inr _ \<Rightarrow> w | Inl _ \<Rightarrow> console_print (Invalid_port s) w)"
  by (auto simp: handle_port_conflict_def checked_port_def dest: parse_port_Inl split: sum.splits)


lemma check_port_kill:
  assumes "fst (find_process_using_port port w) = Some (p, name)"
    and "force_kill_port_process cfg \<or> confirm_answers w (confirms_asked w)"
  shows "check_port port cfg w =
     (let w3 = console_print (Port_in_use port name p)
                 (snd (find_process_using_port port (console_print (Checking_port port) w)));
          w4 = (if force_kill_port_process cfg then w3 else snd (confirm_ask (Kill_question name p) w3));
          w5 = snd (kill_process_by_pid p name w4)
      in if fst (kill_process_by_pid p name w)
         then (Returned (True, None), emit (Sys_sleep 500) (console_print (Port_freed port) w5))
         else (Returned (False, Some p), w5))"
proof -
  define w2 where "w2 = snd (find_process_using_port port (console_print (Checking_port port) w))"
  define w3 where "w3 = console_print (Port_in_use port name p) w2"
  define w4 where "w4 = (if force_kill_port_process cfg then w3 else snd (confirm_ask (Kill_question name p) w3))"
  have f: "find_process_using_port port (console_print (Checking_port port) w) = (Some (p, name), w2)"
    using assms(1) by (simp add: prod_eq_iff w2_def)
  have c: "(if force_kill_port_process cfg then (True, w3) else confirm_ask (Kill_question name p) w3) = (True, w4)"
    using assms(2) by (auto simp add: prod_eq_iff w4_def w3_def w2_def)
  have k: "fst (kill_process_by_pid p name w4) = fst (kill_process_by_pid p name w)"
    by (rule kill_fst_cong) (simp_all add: w4_def w3_def w2_def)
  have "check_port port cfg w =
      (if fst (kill_process_by_pid p name w)
       then (Returned (True, None), emit (Sys_sleep 500) (console_print (Port_freed port) (snd (kill_process_by_pid p name w4))))
       else (Returned (False, Some p), snd (kill_process_by_pid p name w4)))"
    unfolding check_port_def f Let_def prod.case option.case w3_def[symmetric] c
    by (simp add: case_prod_beta k)
  then show ?thesis
    by (simp add: Let_def w4_def w3_def w2_def)
qed


lemmas scenario_defs = occupied_world_def system_with_def listener_def old_server_def policy_def

lemmas run_defs = handle_port_conflict_def check_port_def find_process_using_port_def
  kill_process_by_pid_def process_name_def confirm_ask_def exit_with_error_def
  console_print_def emit_def remove_process_def Let_def

subsection \<open>The resolved outcome\<close>




subsection \<open>A failed kill\<close>

text \<open>
  Claim C2 states that when the kill path is taken and the terminate attempt fails, the
  outcome is \<open>fatal\<close> unless the operator then explicitly agrees to proceed. The code
  asks nothing after a failed kill and does not halt: with force-kill on and an occupant
  that refuses the signal, the call returns \<open>(False, Some 500)\<close>, no confirmation was
  asked, and the operator's answers (all "no") were never consulted.
\<close>

theorem failed_kill_not_fatal:
  "handle_port_conflict ''1935'' (policy True []) (occupied_world Refused (\<lambda>_. False)) =
     (Returned (False, Some 500),
      (occupied_world Refused (\<lambda>_. False))
        \<lparr>trace := [Out (Checking_port 1935), Sys_net_connections,
                   Out (Port_in_use 1935 ''OldServer'' 500),
                   Out (Killing ''OldServer'' 500), Sys_kill 500,
                   Out (Kill_error ''OldServer'' 500)]\<rparr>)"
  by (simp add: run_defs scenario_defs parse_port_1935)

text \<open>
  C2, as the code has it: in the occupied state, when the kill path is taken (force-kill
  policy on, or the operator confirms the kill) and the terminate attempt fails,
  \<open>handle_port_conflict\<close> returns \<open>(False, Some pid)\<close> with the occupant's pid, without
  asking whether to proceed and without the fatal exit.
\<close>

theorem failed_kill_returns_occupant:
  assumes "fst (find_process_using_port (checked_port s) w) = Some (p, name)"
      and "force_kill_port_process cfg \<or> confirm_answers w (confirms_asked w)"
      and "\<not> fst (kill_process_by_pid p name w)"
  shows "\<exists>w' added. handle_port_conflict s cfg w = (Returned (False, Some p), w') \<and>
            trace w' = trace w @ added \<and>
            Ask_confirm Skip_question \<notin> set added \<and> Await_enter \<notin> set added"
proof -
  define w0 where "w0 = (case parse_port s of Inr _ \<Rightarrow> w | Inl _ \<Rightarrow> console_print (Invalid_port s) w)"
  have w0: "procs w0 = procs w" "net_connections w0 = net_connections w"
    "platform_system w0 = platform_system w" "confirm_answers w0 = confirm_answers w"
    "confirms_asked w0 = confirms_asked w"
    by (simp_all add: w0_def split: sum.splits)
  have "\<exists>a0. trace w0 = trace w @ a0 \<and> Ask_confirm Skip_question \<notin> set a0 \<and> Await_enter \<notin> set a0"
    by (cases "parse_port s") (simp_all add: w0_def)
  then obtain a0 where a0: "trace w0 = trace w @ a0" "Ask_confirm Skip_question \<notin> set a0" "Await_enter \<notin> set a0"
    by blast
  have f: "fst (find_process_using_port (checked_port s) w0) = Some (p, name)"
    using assms(1) find_fst_cong[of w0 w] w0 by simp
  have k0: "fst (kill_process_by_pid p name w0) = fst (kill_process_by_pid p name w)"
    by (rule kill_fst_cong) (simp_all add: w0)
  define w4 where "w4 = (if force_kill_port_process cfg
       then console_print (Port_in_use (checked_port s) name p)
                 (snd (find_process_using_port (checked_port s) (console_print (Checking_port (checked_port s)) w0)))
       else snd (confirm_ask (Kill_question name p) (console_print (Port_in_use (checked_port s) name p)
                 (snd (find_process_using_port (checked_port s) (console_print (Checking_port (checked_port s)) w0))))))"
  have "\<exists>a4. trace w4 = trace w0 @ a4 \<and> Ask_confirm Skip_question \<notin> set a4 \<and> Await_enter \<notin> set a4"
    by (cases "force_kill_port_process cfg") (simp_all add: w4_def find_trace)
  then obtain a4 where a4: "trace w4 = trace w0 @ a4" "Ask_confirm Skip_question \<notin> set a4" "Await_enter \<notin> set a4"
    by blast
  from kill_trace[of p name w4] obtain a5 where
    a5: "trace (snd (kill_process_by_pid p name w4)) = trace w4 @ a5" "Ask_confirm Skip_question \<notin> set a5" "Await_enter \<notin> set a5"
    by blast
  from assms(2) have "force_kill_port_process cfg \<or> confirm_answers w0 (confirms_asked w0)"
    by (simp add: w0)
  from check_port_kill[OF f this] assms(3)
  have "handle_port_conflict s cfg w = (Returned (False, Some p), snd (kill_process_by_pid p name w4))"
    by (simp add: hpc_check_port w0_def[symmetric] Let_def k0 w4_def)
  moreover have "trace (snd (kill_process_by_pid p name w4)) = trace w @ (a0 @ a4 @ a5)"
    by (simp add: a0 a4 a5)
  moreover have "Ask_confirm Skip_question \<notin> set (a0 @ a4 @ a5)" "Await_enter \<notin> set (a0 @ a4 @ a5)"
    using a0 a4 a5 by simp_all
  ultimately show ?thesis by blast
qed

text \<open>The theorem at work: the operator confirms the kill of pid 0 on Windows, which
  \<open>kill_process_by_pid\<close> refuses.\<close>

theorem failed_kill_returns_occupant_witness:
  "fst (find_process_using_port (checked_port ''1935'')
         (system_with [listener 1935 0] [(0, old_server Exits)] (\<lambda>_. True))) = Some (0, ''OldServer'') \<and>
   confirm_answers (system_with [listener 1935 0] [(0, old_server Exits)] (\<lambda>_. True))
     (confirms_asked (system_with [listener 1935 0] [(0, old_server Exits)] (\<lambda>_. True))) \<and>
   \<not> fst (kill_process_by_pid 0 ''OldServer''
           (system_with [listener 1935 0] [(0, old_server Exits)] (\<lambda>_. True))) \<and>
   (\<exists>w' added.
      handle_port_conflict ''1935'' (policy False [])
        (system_with [listener 1935 0] [(0, old_server Exits)] (\<lambda>_. True)) =
        (Returned (False, Some 0), w') \<and>
      trace w' = trace (system_with [listener 1935 0] [(0, old_server Exits)] (\<lambda>_. True)) @ added \<and>
      Ask_confirm Skip_question \<notin> set added \<and> Await_enter \<notin> set added)"
proof -
  let ?w = "system_with [listener 1935 0] [(0, old_server Exits)] (\<lambda>_. True)"
  have f: "fst (find_process_using_port (checked_port ''1935'') ?w) = Some (0, ''OldServer'')"
    by (simp add: run_defs scenario_defs checked_port_def parse_port_1935)
  have a: "force_kill_port_process (policy False []) \<or> confirm_answers ?w (confirms_asked ?w)"
    by (simp add: scenario_defs)
  have k: "\<not> fst (kill_process_by_pid 0 ''OldServer'' ?w)"
    by (simp add: run_defs scenario_defs)
  from failed_kill_returns_occupant[OF f a k] f a k show ?thesis
    by (simp add: scenario_defs)
qed

subsection \<open>An invalid port string\<close>



subsection \<open>Terminating a process\<close>

text \<open>
  Claim C4: \<open>kill_process_by_pid\<close> returns failure for pid 0 on Windows without a kill
  call (only the error message is added to the trace); it returns success when the
  process is already gone, at the lookup or at the kill; and when the one-second wait
  for the exit times out it still returns success, the lingering process being reported
  as a warning between the kill and the "signal sent" message.
\<close>

theorem kill_process_by_pid_outcomes:
  "(platform_system w = ''Windows'' \<longrightarrow>
      kill_process_by_pid 0 name w = (False, console_print Cannot_kill_pid0 w) \<and>
      (\<forall>q. Sys_kill q \<notin> set (drop (length (trace w)) (trace (snd (kill_process_by_pid 0 name w)))))) \<and>
   (\<not> (p = 0 \<and> platform_system w = ''Windows'') \<and> map_of (procs w) p = None \<longrightarrow>
      kill_process_by_pid p name w = (True, console_print (Proc_gone name p) w)) \<and>
   (\<forall>pr. \<not> (p = 0 \<and> platform_system w = ''Windows'') \<and> map_of (procs w) p = Some pr \<and> on_kill pr = Vanished \<longrightarrow>
      fst (kill_process_by_pid p name w)) \<and>
   (\<forall>pr. \<not> (p = 0 \<and> platform_system w = ''Windows'') \<and> map_of (procs w) p = Some pr \<and> on_kill pr = Lingers \<longrightarrow>
      kill_process_by_pid p name w =
        (True, w\<lparr>trace := trace w @ [Out (Killing name p), Sys_kill p, Sys_wait p,
                                      Out (Proc_linger name p), Out (Kill_signal_sent name p)]\<rparr>) \<and>
      severity (Proc_linger name p) = Warning)"
  by (auto simp: kill_process_by_pid_def Let_def console_print_def emit_def)

text \<open>The theorem at work on a Windows system with pid 0, a lingering process 500 and a
  process 600 that vanishes at the kill; pid 700 does not exist.\<close>

theorem kill_process_by_pid_outcomes_witness:
  "platform_system (system_with [] [(0, old_server Exits), (500, old_server Lingers), (600, old_server Vanished)] (\<lambda>_. False)) = ''Windows'' \<and>
   fst (kill_process_by_pid 0 ''Idle''
         (system_with [] [(0, old_server Exits), (500, old_server Lingers), (600, old_server Vanished)] (\<lambda>_. False))) = False \<and>
   trace (snd (kill_process_by_pid 0 ''Idle''
         (system_with [] [(0, old_server Exits), (500, old_server Lingers), (600, old_server Vanished)] (\<lambda>_. False)))) = [Out Cannot_kill_pid0] \<and>
   fst (kill_process_by_pid 700 ''Ghost''
         (system_with [] [(0, old_server Exits), (500, old_server Lingers), (600, old_server Vanished)] (\<lambda>_. False))) = True \<and>
   fst (kill_process_by_pid 600 ''OldServer''
         (system_with [] [(0, old_server Exits), (500, old_server Lingers), (600, old_server Vanished)] (\<lambda>_. False))) = True \<and>
   fst (kill_process_by_pid 500 ''OldServer''
         (system_with [] [(0, old_server Exits), (500, old_server Lingers), (600, old_server Vanished)] (\<lambda>_. False))) = True \<and>
   trace (snd (kill_process_by_pid 500 ''OldServer''
         (system_with [] [(0, old_server Exits), (500, old_server Lingers), (600, old_server Vanished)] (\<lambda>_. False)))) =
     [Out (Killing ''OldServer'' 500), Sys_kill 500, Sys_wait 500,
      Out (Proc_linger ''OldServer'' 500), Out (Kill_signal_sent ''OldServer'' 500)]"
proof -
  let ?w = "system_with [] [(0, old_server Exits), (500, old_server Lingers), (600, old_server Vanished)] (\<lambda>_. False)"
  have p: "platform_system ?w = ''Windows''" by (simp add: scenario_defs)
  have m7: "\<not> (700 = (0::int) \<and> platform_system ?w = ''Windows'') \<and> map_of (procs ?w) 700 = None"
    by (simp add: scenario_defs)
  have m6: "\<not> (600 = (0::int) \<and> platform_system ?w = ''Windows'') \<and>
            map_of (procs ?w) 600 = Some (old_server Vanished) \<and> on_kill (old_server Vanished) = Vanished"
    by (simp add: scenario_defs)
  have m5: "\<not> (500 = (0::int) \<and> platform_system ?w = ''Windows'') \<and>
            map_of (procs ?w) 500 = Some (old_server Lingers) \<and> on_kill (old_server Lingers) = Lingers"
    by (simp add: scenario_defs)
  from kill_process_by_pid_outcomes[where w = ?w and name = "''Idle''" and p = 0]
       kill_process_by_pid_outcomes[where w = ?w and name = "''Ghost''" and p = 700]
       kill_process_by_pid_outcomes[where w = ?w and name = "''OldServer''" and p = 600]
       kill_process_by_pid_outcomes[where w = ?w and name = "''OldServer''" and p = 500]
       p m7 m6 m5
  show ?thesis
    by (simp add: console_print_def emit_def) (simp add: scenario_defs)
qed

subsection \<open>Finding the occupant\<close>



subsection \<open>The shape of the returned pair\<close>



section \<open>Properties of the Device Bridge Client and the Device Selector\<close>

subsection \<open>Auxiliary facts\<close>

lemma contains_iff: "contains sub s \<longleftrightarrow> (\<exists>pre post. s = pre @ sub @ post)"
proof (induction s)
  case Nil
  then show ?case by auto
next
  case (Cons c cs)
  show ?case
  proof
    assume "contains sub (c # cs)"
    then consider "prefix sub (c # cs)" | "contains sub cs" by auto
    then show "\<exists>pre post. c # cs = pre @ sub @ post"
    proof cases
      case 1
      then obtain post where "c # cs = sub @ post" by (auto simp: prefix_def)
      then have "c # cs = [] @ sub @ post" by simp
      then show ?thesis by blast
    next
      case 2
      with Cons obtain pre post where "cs = pre @ sub @ post" by blast
      then have "c # cs = (c # pre) @ sub @ post" by simp
      then show ?thesis by blast
    qed
  next
    assume "\<exists>pre post. c # cs = pre @ sub @ post"
    then obtain pre post where e: "c # cs = pre @ sub @ post" by blast
    show "contains sub (c # cs)"
    proof (cases pre)
      case Nil
      with e have "prefix sub (c # cs)" by (simp add: prefix_def)
      then show ?thesis by simp
    next
      case (Cons a pre')
      with e have "cs = pre' @ sub @ post" by simp
      with Cons.IH have "contains sub cs" by blast
      then show ?thesis by simp
    qed
  qed
qed

lemma colon_prefix_gen:
  assumes nc: "CHR '':'' \<notin> set ds"
  shows "(List.member did CHR '':'' \<and>
    list_all (\<lambda>c. List.member ds c) (takeWhile (\<lambda>c. c \<noteq> CHR '':'') did)) \<longleftrightarrow>
   (\<exists>pre post. did = pre @ CHR '':'' # post \<and> set pre \<subseteq> set ds)"
proof
  assume a: "List.member did CHR '':'' \<and>
    list_all (\<lambda>c. List.member ds c) (takeWhile (\<lambda>c. c \<noteq> CHR '':'') did)"
  then have m: "CHR '':'' \<in> set did" by simp
  define pre where "pre = takeWhile (\<lambda>c. c \<noteq> CHR '':'') did"
  define rest where "rest = dropWhile (\<lambda>c. c \<noteq> CHR '':'') did"
  have d: "did = pre @ rest" by (simp add: pre_def rest_def)
  from m have "rest \<noteq> []" by (auto simp: rest_def)
  moreover have "rest \<noteq> [] \<Longrightarrow> hd rest = CHR '':''"
    using hd_dropWhile[of "\<lambda>c. c \<noteq> CHR '':''" did] by (simp add: rest_def)
  ultimately obtain post where r: "rest = CHR '':'' # post" by (cases rest) auto
  from a have "set pre \<subseteq> set ds"
    by (auto simp: pre_def list_all_iff)
  with d r show "\<exists>pre post. did = pre @ CHR '':'' # post \<and> set pre \<subseteq> set ds" by blast
next
  assume "\<exists>pre post. did = pre @ CHR '':'' # post \<and> set pre \<subseteq> set ds"
  then obtain pre post where d: "did = pre @ CHR '':'' # post" and p: "set pre \<subseteq> set ds" by blast
  from p nc have "\<forall>c \<in> set pre. c \<noteq> CHR '':''" by auto
  then have "takeWhile (\<lambda>c. c \<noteq> CHR '':'') did = pre"
    unfolding d by (simp add: takeWhile_append2)
  with p d show "List.member did CHR '':'' \<and>
    list_all (\<lambda>c. List.member ds c) (takeWhile (\<lambda>c. c \<noteq> CHR '':'') did)"
    by (auto simp: list_all_iff)
qed

lemma colon_prefix_iff:
  "(List.member did CHR '':'' \<and>
    list_all (\<lambda>c. List.member ''0123456789.'' c) (takeWhile (\<lambda>c. c \<noteq> CHR '':'') did)) \<longleftrightarrow>
   (\<exists>pre post. did = pre @ CHR '':'' # post \<and> set pre \<subseteq> set ''0123456789.'')"
  by (rule colon_prefix_gen) simp

lemma digits_of_groups:
  assumes "list_all (\<lambda>g. list_all (\<lambda>c. List.member ds c) g) (split_on sep s)"
  shows "list_all (\<lambda>c. List.member (ds @ [sep]) c) s"
  using assms
proof (induction s)
  case Nil
  then show ?case by simp
next
  case (Cons a s)
  then show ?case
    by (cases "a = sep") (auto split: list.splits)
qed

lemma spec_prefix_wifi:
  assumes "spec_dotted_quad_with_port_prefix did"
  shows "fst (connection_of did) = Wi_Fi"
proof -
  let ?host = "takeWhile (\<lambda>c. c \<noteq> CHR '':'') did"
  from assms have m: "List.member did CHR '':''"
    and g: "list_all (\<lambda>g. g \<noteq> [] \<and> list_all (\<lambda>c. List.member ''0123456789'' c) g) (split_on CHR ''.'' ?host)"
    unfolding spec_dotted_quad_with_port_prefix_def Let_def by blast+
  from g have "list_all (\<lambda>g. list_all (\<lambda>c. List.member ''0123456789'' c) g) (split_on CHR ''.'' ?host)"
    unfolding list_all_iff by blast
  from digits_of_groups[OF this]
  have "list_all (\<lambda>c. List.member ''0123456789.'' c) ?host" by (simp only: append.simps)
  with m have mh: "List.member did CHR '':'' \<and> list_all (\<lambda>c. List.member ''0123456789.'' c) ?host"
    by blast
  show ?thesis unfolding connection_of_def if_P[OF mh] by simp
qed

lemma parse_connection:
  "connection (fst (parse_device_line cfg (did, stat, det) w)) = fst (connection_of did)"
  by (simp add: parse_device_line_def case_prod_beta Let_def)

subsection \<open>The connection kind\<close>

text \<open>
  Claim C6 states that the connection kind is a pure function of the identifier: the
  wireless pairing marker or a dotted-quad-with-port prefix gives wifi, the emulator
  substring gives emulator, every other identifier gives usb. The code does not test for
  a dotted quad: it tests that the identifier has a colon and that the text before the
  first colon consists of digits and dots. The identifier "10.0.2:5555" has no marker,
  no dotted quad and no emulator substring, so the claim makes it usb; the code makes it
  wifi.
\<close>

theorem digits_before_colon_classified_wifi:
  "fst (connection_of ''10.0.2:5555'') = Wi_Fi \<and> spec_connection_kind ''10.0.2:5555'' = USB \<and>
   \<not> spec_dotted_quad_with_port_prefix ''10.0.2:5555'' \<and>
   \<not> contains ''_adb-tls-connect'' ''10.0.2:5555'' \<and> \<not> contains ''emulator'' ''10.0.2:5555''"
  by (simp add: connection_of_def spec_connection_kind_def spec_dotted_quad_with_port_prefix_def
     )

text \<open>
  C6, as the code has it: the connection kind of a parsed line depends on the identifier
  only (not on the configuration, the status, the detail or the system). It is wifi when
  the identifier contains the marker "_adb-tls-connect" or has a colon before which
  there are only digits and dots; otherwise emulator when it contains "emulator";
  otherwise usb. Every identifier with a dotted-quad-with-port prefix is wifi, and on
  identifiers without a colon the code agrees with the specification's wording.
\<close>

theorem connection_kind_classification:
  "connection (fst (parse_device_line cfg (did, stat, det) w)) =
     (if (\<exists>pre post. did = pre @ ''_adb-tls-connect'' @ post) \<or>
         (\<exists>pre post. did = pre @ CHR '':'' # post \<and> set pre \<subseteq> set ''0123456789.'')
      then Wi_Fi
      else if (\<exists>pre post. did = pre @ ''emulator'' @ post) then Emulator
      else USB) \<and>
   (spec_dotted_quad_with_port_prefix did \<longrightarrow>
      connection (fst (parse_device_line cfg (did, stat, det) w)) = Wi_Fi) \<and>
   (CHR '':'' \<notin> set did \<longrightarrow>
      connection (fst (parse_device_line cfg (did, stat, det) w)) = spec_connection_kind did)"
proof -
  have 1: "fst (connection_of did) =
     (if (\<exists>pre post. did = pre @ ''_adb-tls-connect'' @ post) \<or>
         (\<exists>pre post. did = pre @ CHR '':'' # post \<and> set pre \<subseteq> set ''0123456789.'')
      then Wi_Fi
      else if (\<exists>pre post. did = pre @ ''emulator'' @ post) then Emulator
      else USB)"
    unfolding contains_iff[symmetric] colon_prefix_iff[symmetric]
    by (simp add: connection_of_def)
  have 3: "CHR '':'' \<notin> set did \<Longrightarrow> fst (connection_of did) = spec_connection_kind did"
    by (simp add: connection_of_def spec_connection_kind_def spec_dotted_quad_with_port_prefix_def
       )
  from 1 3 spec_prefix_wifi show ?thesis
    unfolding parse_connection by blast
qed

text \<open>The theorem at work on a network address, an emulator id and a serial number.\<close>

theorem connection_kind_classification_witness:
  "spec_dotted_quad_with_port_prefix ''192.168.1.5:5555'' \<and>
   connection (fst (parse_device_line (policy True []) (''192.168.1.5:5555'', Device, None)
                      (system_with [] [] (\<lambda>_. False)))) = Wi_Fi \<and>
   CHR '':'' \<notin> set ''emulator-5554'' \<and>
   connection (fst (parse_device_line (policy False []) (''emulator-5554'', Offline, Some ''usb:1-1'')
                      (system_with [] [] (\<lambda>_. True)))) = Emulator \<and>
   CHR '':'' \<notin> set ''ABC123'' \<and>
   connection (fst (parse_device_line (policy True []) (''ABC123'', Device, None)
                      (system_with [] [] (\<lambda>_. False)))) = USB"
proof -
  have a: "spec_dotted_quad_with_port_prefix ''192.168.1.5:5555''"
    by (simp add: spec_dotted_quad_with_port_prefix_def)
  have b: "CHR '':'' \<notin> set ''emulator-5554''" by simp
  have c: "CHR '':'' \<notin> set ''ABC123''" by simp
  from connection_kind_classification[of "policy True []" "''192.168.1.5:5555''" Device None "system_with [] [] (\<lambda>_. False)", THEN conjunct2]
       connection_kind_classification[of "policy False []" "''emulator-5554''" Offline "Some ''usb:1-1''" "system_with [] [] (\<lambda>_. True)", THEN conjunct2]
       connection_kind_classification[of "policy True []" "''ABC123''" Device None "system_with [] [] (\<lambda>_. False)", THEN conjunct2]
       a b c
  show ?thesis by (simp add: spec_connection_kind_def spec_dotted_quad_with_port_prefix_def)
qed

subsection \<open>Choosing a device\<close>

text \<open>
  Claim C7: for an empty record list \<open>select_device_from_list\<close> reports "no devices" and
  returns none; when exactly one record is selectable (status \<open>device\<close>) and the
  auto-select policy holds, it returns that record at once: the table and the
  auto-select message are printed, no prompt is shown and no operator input is read.
\<close>

theorem select_device_empty_and_auto_select:
  "(devices cfg = [] \<longrightarrow>
      select_device_from_list cfg w = (Returned None, console_print No_devices_found w)) \<and>
   (\<forall>d. filter (\<lambda>d. dev_status d = Device) (devices cfg) = [d] \<and> auto_select_single_device cfg \<longrightarrow>
      select_device_from_list cfg w =
        (Returned (Some d),
         console_print (Auto_selecting d) (console_print (Device_table (devices cfg)) w)) \<and>
      prompt_inputs (snd (select_device_from_list cfg w)) = prompt_inputs w \<and>
      trace (snd (select_device_from_list cfg w)) =
        trace w @ [Out (Device_table (devices cfg)), Out (Auto_selecting d)])"
proof -
  have "filter (\<lambda>d. dev_status d = Device) (devices cfg) = [d] \<Longrightarrow> devices cfg \<noteq> []" for d
    by auto
  then show ?thesis
    by (auto simp: select_device_from_list_def Let_def)
qed

text \<open>The theorem at work: no device at all; and one connected device beside an offline
  one, with an operator input waiting that is never read.\<close>

theorem select_device_empty_and_auto_select_witness:
  "select_device_from_list (policy True []) (system_with [] [] (\<lambda>_. False)) =
     (Returned None, (system_with [] [] (\<lambda>_. False))\<lparr>trace := [Out No_devices_found]\<rparr>) \<and>
   filter (\<lambda>d. dev_status d = Device) (devices (policy True [phone ''OFF1'' Offline, phone ''ABC123'' Device]))
     = [phone ''ABC123'' Device] \<and>
   select_device_from_list (policy True [phone ''OFF1'' Offline, phone ''ABC123'' Device])
       ((system_with [] [] (\<lambda>_. False))\<lparr>prompt_inputs := [Typed ''7'']\<rparr>) =
     (Returned (Some (phone ''ABC123'' Device)),
      (system_with [] [] (\<lambda>_. False))
        \<lparr>prompt_inputs := [Typed ''7''],
         trace := [Out (Device_table [phone ''OFF1'' Offline, phone ''ABC123'' Device]),
                   Out (Auto_selecting (phone ''ABC123'' Device))]\<rparr>)"
proof -
  have f: "filter (\<lambda>d. dev_status d = Device) (devices (policy True [phone ''OFF1'' Offline, phone ''ABC123'' Device]))
     = [phone ''ABC123'' Device] \<and> auto_select_single_device (policy True [phone ''OFF1'' Offline, phone ''ABC123'' Device])"
    by (simp add: policy_def phone_def)
  have e: "devices (policy True []) = []" by (simp add: policy_def)
  from select_device_empty_and_auto_select[of "policy True []" "system_with [] [] (\<lambda>_. False)"]
       select_device_empty_and_auto_select[of "policy True [phone ''OFF1'' Offline, phone ''ABC123'' Device]"
             "(system_with [] [] (\<lambda>_. False))\<lparr>prompt_inputs := [Typed ''7'']\<rparr>"]
       f e
  show ?thesis
    by (simp add: console_print_def emit_def system_with_def policy_def)
qed

subsection \<open>The selection prompt\<close>


lemma read_choice_Inr: "read_choice choices ins = (Inr s, rest, n) \<Longrightarrow> s \<in> set choices"
  by (induction choices ins arbitrary: n rule: read_choice.induct) (auto split: if_splits prod.splits)

lemma print_choice_lines_fields [simp]:
  "prompt_inputs (print_choice_lines sel w) = prompt_inputs w"
proof -
  have "prompt_inputs (fold (\<lambda>(i, d). console_print (Choice_line (i + 1) d)) xs w) = prompt_inputs w" for xs
    by (induction xs arbitrary: w) (auto simp: console_print_def emit_def)
  then show ?thesis by (simp add: print_choice_lines_def)
qed




section \<open>Properties of the server start\<close>

subsection \<open>Auxiliary facts\<close>



lemma check_mona_snd [simp]: "snd (check_monaserver_process w) = emit Sys_process_iter w"
  by (simp add: check_monaserver_process_def)













subsection \<open>The check after the spawn\<close>




section \<open>Exit statuses\<close>




end
